theory Spec2Isabelle
  imports Complex_Main "HOL-Library.AList"
begin

section \<open>Data model\<close>

text \<open>
  The purchase workflow of the museum API: the ticket model (\<open>models/Ticket.js\<close>), the
  purchase model (\<open>models/Purchase.js\<close>) and the purchase routes (\<open>routes/purchases.js\<close>).

  Conventions of the embedding.
  \<^item> A Mongoose document method reads and assigns the fields of \<open>this\<close>. It is embedded as
    a function from the document to the pair of its return value and the document after
    the call, so that what a method leaves untouched is a statement about the second
    component.
  \<^item> Document identifiers are natural numbers.
  \<^item> A JavaScript number is a double: a rational, and every sum, difference and product
    is rounded to the nearest double, ties to even (\<open>round64\<close>). Stock, counters and
    quantities are whole numbers (the request validators admit integers only) and are
    kept as integers, rounded the same way; a quantity of a request is a JSON number.
    Magnitudes from \<open>2^1024\<close> on, where JavaScript has \<open>Infinity\<close>, are outside the
    model; the ticket schema bounds a price by 50000 and the purchase schema a quantity
    by 20.
  \<^item> Dates are compared by their millisecond value, an integer.
  \<^item> A JavaScript string is a list of characters, one \<open>char\<close> per code unit (code
    units up to 255, which covers the accented letters of the messages).
  \<^item> The database answers every call; the clock, the random suffix of the purchase code,
    the QR encoder and the fresh document identifier are inputs of the request.
\<close>

type_synonym object_id = nat

section \<open>JavaScript numbers\<close>

text \<open>
  Rounding a rational to binary64. The magnitude is scaled by powers of two until it
  lies in \<open>[2^52, 2^53)\<close>, or for a subnormal until the exponent is \<open>-1074\<close>; the scaled
  magnitude is rounded to an integer, a tie going to the even neighbour; the result is
  scaled back.
\<close>

function scale_up :: "rat \<Rightarrow> int \<Rightarrow> rat \<times> int" where
  "scale_up m e = (if 0 < m \<and> m < 2 ^ 52 \<and> - 1074 < e then scale_up (2 * m) (e - 1) else (m, e))"
  by pat_completeness auto
termination
  by (relation "measure (\<lambda>(m, e). nat (e + 1074))") auto

function scale_down :: "rat \<Rightarrow> int \<Rightarrow> rat \<times> int" where
  "scale_down m e = (if 2 ^ 53 \<le> m then scale_down (m / 2) (e + 1) else (m, e))"
  by pat_completeness auto
termination
proof (relation "measure (\<lambda>(m, e). nat \<lfloor>m\<rfloor>)")
  show "wf (measure (\<lambda>(m::rat, e::int). nat \<lfloor>m\<rfloor>))" by simp
next
  fix m :: rat and e :: int
  assume "2 ^ 53 \<le> m"
  then have two: "2 \<le> m" by (rule order_trans [rotated]) simp
  then have "m / 2 \<le> m - 1" by simp
  then have "\<lfloor>m / 2\<rfloor> \<le> \<lfloor>m - 1\<rfloor>" by (rule floor_mono)
  then have "\<lfloor>m / 2\<rfloor> < \<lfloor>m\<rfloor>" by simp
  moreover from two have "0 < \<lfloor>m\<rfloor>" by simp
  ultimately show "((m / 2, e + 1), (m, e)) \<in> measure (\<lambda>(m, e). nat \<lfloor>m\<rfloor>)"
    by simp
qed

declare scale_up.simps [simp del] scale_down.simps [simp del]

definition round_half_even :: "rat \<Rightarrow> int" where
  "round_half_even y =
     (let f = \<lfloor>y\<rfloor>; r = y - of_int f
      in if r < 1 / 2 then f else if 1 / 2 < r then f + 1 else if even f then f else f + 1)"

definition round64 :: "rat \<Rightarrow> rat" where
  "round64 x =
     (let (m, e) = (if 2 ^ 53 \<le> \<bar>x\<bar> then scale_down \<bar>x\<bar> 0 else scale_up \<bar>x\<bar> 0)
      in sgn x * of_int (round_half_even m) * 2 powi e)"

text \<open>The operators \<open>+\<close> and \<open>*\<close> on numbers, and \<open>+\<close> and \<open>-\<close> on whole numbers.\<close>

definition js_add :: "rat \<Rightarrow> rat \<Rightarrow> rat" where
  "js_add a b = round64 (a + b)"

definition js_mul :: "rat \<Rightarrow> rat \<Rightarrow> rat" where
  "js_mul a b = round64 (a * b)"

definition js_add_int :: "int \<Rightarrow> int \<Rightarrow> int" where
  "js_add_int a b = \<lfloor>round64 (of_int a + of_int b)\<rfloor>"

definition js_sub_int :: "int \<Rightarrow> int \<Rightarrow> int" where
  "js_sub_int a b = \<lfloor>round64 (of_int a - of_int b)\<rfloor>"

text \<open>The literal \<open>0.18\<close> of the handler: the double nearest to 18/100.\<close>

definition tax_rate :: rat where
  "tax_rate = round64 (18 / 100)"

text \<open>
  The fields of the ticket schema that the inventory methods and the purchase handler
  read or assign; \<open>ttype\<close> is the field \<open>type\<close>. The stock \<open>-1\<close> stands for
  unlimited stock.
\<close>

record ticket =
  ttype :: string
  price :: rat
  isAvailable :: bool
  stock :: int
  purchaseCount :: int
  revenue :: rat

text \<open>
  What \<open>reserveStock\<close> and \<open>releaseStock\<close> return: the literal \<open>true\<close> (unlimited stock,
  nothing saved), the promise of \<open>this.save(...)\<close>, or the literal \<open>false\<close>.
\<close>

datatype stock_result = ReturnedTrue | ReturnedSave | ReturnedFalse

section \<open>Ticket inventory\<close>

definition isAvailableForPurchase :: "int \<Rightarrow> ticket \<Rightarrow> bool \<times> ticket" where
  "isAvailableForPurchase quantity this =
     (if \<not> isAvailable this then (False, this)
      else if stock this = - 1 then (True, this)
      else (stock this \<ge> quantity, this))"

definition reserveStock :: "int \<Rightarrow> ticket \<Rightarrow> stock_result \<times> ticket" where
  "reserveStock quantity this =
     (if stock this = - 1 then (ReturnedTrue, this)
      else if stock this \<ge> quantity
        then (ReturnedSave, this\<lparr>stock := js_sub_int (stock this) quantity\<rparr>)
      else (ReturnedFalse, this))"

definition releaseStock :: "int \<Rightarrow> ticket \<Rightarrow> stock_result \<times> ticket" where
  "releaseStock quantity this =
     (if stock this = - 1 then (ReturnedTrue, this)
      else (ReturnedSave, this\<lparr>stock := js_add_int (stock this) quantity\<rparr>))"

definition updateStats :: "int \<Rightarrow> rat \<Rightarrow> ticket \<Rightarrow> stock_result \<times> ticket" where
  "updateStats quantity totalPrice this =
     (ReturnedSave, this\<lparr>purchaseCount := js_add_int (purchaseCount this) quantity,
                          revenue := js_add (revenue this) totalPrice\<rparr>)"


section \<open>Purchase records\<close>

datatype purchase_status = Pending | Confirmed | Cancelled | Refunded | Expired

datatype payment_method = Cash | Card | MobileMoney | BankTransfer

record purchase_item =
  ticketId :: object_id
  ticketType :: string
  quantity :: int
  unitPrice :: rat
  totalPrice :: rat

text \<open>
  The fields of the purchase schema that the workflow computes or tests. Of the customer
  snapshot only \<open>customer.userId\<close> is kept (the owner the routes filter on); the contact
  fields, the payment reference and the request metadata are copied through by the
  source and read by none of the operations below. \<open>notes_p\<close> and \<open>total_p\<close> are the
  fields \<open>notes\<close> and \<open>total\<close>; \<open>None\<close> is a field that was never set.
\<close>

record purchase =
  userId :: object_id
  items :: "purchase_item list"
  subtotal :: rat
  tax :: rat
  discount :: rat
  total_p :: rat
  status :: purchase_status
  qrCode :: string
  qrCodeBase64 :: string
  purchaseDate :: int
  validFrom :: int
  validUntil :: int
  paymentMethod :: payment_method
  notes_p :: "string option"

subsection \<open>Schema setters and validators\<close>

text \<open>
  \<open>trim: true\<close> installs a setter that applies \<open>String.prototype.trim\<close> on every
  assignment to the path. The white space of JavaScript, within the one-byte range:
  tab, line feed, vertical tab, form feed, carriage return, space, no-break space.
\<close>

definition is_space :: "char \<Rightarrow> bool" where
  "is_space c = (c \<in> set [CHR 0x09, CHR 0x0A, CHR 0x0B, CHR 0x0C, CHR 0x0D, CHR 0x20, CHR 0xA0])"

definition trim :: "string \<Rightarrow> string" where
  "trim s = rev (dropWhile is_space (rev (dropWhile is_space s)))"

text \<open>
  The validators that \<open>save()\<close> runs before writing, for the fields of the model:
  \<open>min\<close> and \<open>max\<close> on the numbers, \<open>required\<close> on the strings (an empty string is
  refused) and \<open>maxlength\<close> on the notes. The enumerations are types here. The
  validators of the customer contact fields, which the model does not carry, are not
  part of it: where the schema refuses such a field, the source answers 500.
\<close>

definition item_valid :: "purchase_item \<Rightarrow> bool" where
  "item_valid it = (ticketType it \<noteq> [] \<and> 1 \<le> quantity it \<and> quantity it \<le> 20
                    \<and> 0 \<le> unitPrice it \<and> 0 \<le> totalPrice it)"

definition schema_valid :: "purchase \<Rightarrow> bool" where
  "schema_valid p = (list_all item_valid (items p)
      \<and> 0 \<le> subtotal p \<and> 0 \<le> tax p \<and> 0 \<le> discount p \<and> 0 \<le> total_p p
      \<and> qrCode p \<noteq> [] \<and> qrCodeBase64 p \<noteq> []
      \<and> (case notes_p p of None \<Rightarrow> True | Some n \<Rightarrow> length n \<le> 500))"

datatype js_error = JsError string | ValidationError

datatype promise = Resolved | Rejected js_error

definition save :: "purchase \<Rightarrow> promise" where
  "save this = (if schema_valid this then Resolved else Rejected ValidationError)"

subsection \<open>Virtuals and methods of a purchase\<close>

text \<open>\<open>now\<close> is the value of \<open>new Date()\<close> read by the call.\<close>

definition isValid :: "int \<Rightarrow> purchase \<Rightarrow> bool" where
  "isValid now this = (status this = Confirmed \<and> validFrom this \<le> now \<and> validUntil this \<ge> now)"

definition isExpired :: "int \<Rightarrow> purchase \<Rightarrow> bool" where
  "isExpired now this = (now > validUntil this)"

text \<open>The object returned by \<open>validatePurchase\<close>: \<open>{valid: false, error}\<close> or \<open>{valid: true, purchase}\<close>.\<close>

datatype validation = Invalid string | Valid purchase

definition validatePurchase :: "int \<Rightarrow> purchase \<Rightarrow> validation \<times> purchase" where
  "validatePurchase now this =
     (if status this \<noteq> Confirmed then (Invalid (''Achat non confirm'' @ [CHR 0xE9]), this)
      else if isExpired now this then (Invalid (''Achat expir'' @ [CHR 0xE9]), this)
      else (Valid this, this))"

text \<open>
  The value assigned to \<open>this.notes\<close> by \<open>cancelPurchase\<close>. The condition \<open>this.notes ?\<close>
  is false for a field that is unset and for the empty string.
\<close>

definition cancelNotes :: "string option \<Rightarrow> string \<Rightarrow> string" where
  "cancelNotes old reason =
     (case old of
        None \<Rightarrow> ''Annul'' @ [CHR 0xE9] @ '': '' @ reason
      | Some v \<Rightarrow>
          if v \<noteq> [] then v @ [CHR 0x0A] @ ''Annul'' @ [CHR 0xE9] @ '': '' @ reason
          else ''Annul'' @ [CHR 0xE9] @ '': '' @ reason)"

definition cancelPurchase :: "string \<Rightarrow> purchase \<Rightarrow> promise \<times> purchase" where
  "cancelPurchase reason this =
     (if status this = Confirmed then
        (let this' = this\<lparr>status := Cancelled,
                           notes_p := Some (trim (cancelNotes (notes_p this) reason))\<rparr>
         in (save this', this'))
      else (Rejected (JsError (''Impossible d'annuler un achat non confirm'' @ [CHR 0xE9])), this))"

section \<open>Purchase routes\<close>

text \<open>
  The database: the ticket collection as a map from identifiers, the purchase collection
  as a list of identified documents in insertion order.
\<close>

record db =
  tickets :: "object_id \<rightharpoonup> ticket"
  purchases :: "(object_id \<times> purchase) list"

text \<open>The JSON bodies the two routes answer with; the status code travels beside them.\<close>

datatype body =
    TicketNotFound object_id
  | TicketUnavailable string int
  | PurchaseCreated purchase
  | PurchaseCreationError
  | PurchaseNotFound
  | PurchaseCancelled purchase
  | PurchaseCancelError

type_synonym response = "nat \<times> body"

record request_item =
  req_ticketId :: object_id
  req_quantity :: int

text \<open>
  The body of \<open>POST /api/purchases\<close> once it has passed the request validators.
  \<open>req_customer_userId\<close> is a \<open>userId\<close> key inside \<open>customer\<close>, which the spread
  \<open>{userId: req.user.id, ...customer}\<close> lets override the authenticated user.
\<close>

record purchase_request =
  req_customer_userId :: "object_id option"
  req_items :: "request_item list"
  req_paymentMethod :: payment_method
  req_notes :: "string option"

text \<open>
  What one request reads from outside: the purchase code built from \<open>Date.now()\<close> and
  \<open>Math.random()\<close>, the data URL of \<open>QRCode.toDataURL\<close> (\<open>None\<close> when it throws), the
  clock readings for the schema defaults and for \<open>validUntil\<close>, and the identifier the
  driver gives the new document.
\<close>

record request_env =
  purchaseId :: string
  qrDataURL :: "string option"
  nowDefault :: int
  nowUntil :: int
  newObjectId :: object_id

text \<open>
  The first loop of the handler: look each line up, answer 400 at the first ticket that
  is absent or not available in the quantity asked, otherwise add the line total to the
  subtotal and push the processed line.
\<close>

fun processItems :: "(object_id \<rightharpoonup> ticket) \<Rightarrow> request_item list \<Rightarrow> rat \<Rightarrow> purchase_item list
                      \<Rightarrow> response + (rat \<times> purchase_item list)" where
  "processItems ts [] sub processedItems = Inr (sub, processedItems)"
| "processItems ts (item # rest) sub processedItems =
     (case ts (req_ticketId item) of
        None \<Rightarrow> Inl (400, TicketNotFound (req_ticketId item))
      | Some ticket \<Rightarrow>
          if \<not> fst (isAvailableForPurchase (req_quantity item) ticket)
          then Inl (400, TicketUnavailable (ttype ticket) (req_quantity item))
          else
            (let itemTotal = js_mul (price ticket) (of_int (req_quantity item))
             in processItems ts rest (js_add sub itemTotal)
                  (processedItems @ [\<lparr>ticketId = req_ticketId item, ticketType = ttype ticket,
                     quantity = req_quantity item, unitPrice = price ticket,
                     totalPrice = itemTotal\<rparr>])))"

text \<open>
  The second loop: for each processed line fetch the ticket again, \<open>reserveStock\<close> (the
  return value is not looked at), then \<open>updateStats\<close>, which saves the same document.
  A ticket that is no longer there makes the call on \<open>null\<close> throw: the flag is \<open>False\<close>.
\<close>

fun reserveItems :: "purchase_item list \<Rightarrow> (object_id \<rightharpoonup> ticket) \<Rightarrow> bool \<times> (object_id \<rightharpoonup> ticket)" where
  "reserveItems [] ts = (True, ts)"
| "reserveItems (item # rest) ts =
     (case ts (ticketId item) of
        None \<Rightarrow> (False, ts)
      | Some ticket \<Rightarrow>
          (let (r1, t1) = reserveStock (quantity item) ticket;
               ts1 = (if r1 = ReturnedSave then ts(ticketId item \<mapsto> t1) else ts);
               (r2, t2) = updateStats (quantity item) (totalPrice item) t1
           in reserveItems rest (ts1(ticketId item \<mapsto> t2))))"

text \<open>\<open>new Purchase({...})\<close>: the fields given, the schema defaults for the others, the setters applied.\<close>

definition newPurchase :: "request_env \<Rightarrow> object_id \<Rightarrow> purchase_request \<Rightarrow> purchase_item list \<Rightarrow> rat
                            \<Rightarrow> rat \<Rightarrow> rat \<Rightarrow> string \<Rightarrow> purchase" where
  "newPurchase env user req processedItems sub tx tot qr =
     \<lparr>userId = (case req_customer_userId req of Some u \<Rightarrow> u | None \<Rightarrow> user),
      items = map (\<lambda>it. it\<lparr>ticketType := trim (ticketType it)\<rparr>) processedItems,
      subtotal = sub, tax = tx, discount = 0, total_p = tot,
      status = Pending,
      qrCode = trim (purchaseId env), qrCodeBase64 = qr,
      purchaseDate = nowDefault env, validFrom = nowDefault env,
      validUntil = nowUntil env + 30 * 24 * 60 * 60 * 1000,
      paymentMethod = req_paymentMethod req,
      notes_p = map_option trim (req_notes req)\<rparr>"

text \<open>
  Inserting a new document: the validators, then the unique indexes on \<open>_id\<close> and
  \<open>qrCode\<close>.
\<close>

definition insertPurchase :: "object_id \<Rightarrow> purchase \<Rightarrow> (object_id \<times> purchase) list
                               \<Rightarrow> (object_id \<times> purchase) list option" where
  "insertPurchase i p ps =
     (if save p = Resolved \<and> \<not> list_ex (\<lambda>(j, q). j = i \<or> qrCode q = qrCode p) ps
      then Some (ps @ [(i, p)]) else None)"

text \<open>
  The handler of \<open>POST /api/purchases\<close> for the authenticated user \<open>user\<close>. Every
  exception ends in the \<open>catch\<close> block, which answers 500; what was written before the
  exception stays written.
\<close>

definition post_purchases :: "request_env \<Rightarrow> object_id \<Rightarrow> purchase_request \<Rightarrow> db \<Rightarrow> response \<times> db" where
  "post_purchases env user req d =
     (case processItems (tickets d) (req_items req) 0 [] of
        Inl r \<Rightarrow> (r, d)
      | Inr (sub, processedItems) \<Rightarrow>
          (let tx = js_mul sub tax_rate;
               tot = js_add sub tx
           in case qrDataURL env of
                None \<Rightarrow> ((500, PurchaseCreationError), d)
              | Some qr \<Rightarrow>
                  (let p = newPurchase env user req processedItems sub tx tot qr
                   in case insertPurchase (newObjectId env) p (purchases d) of
                        None \<Rightarrow> ((500, PurchaseCreationError), d)
                      | Some ps \<Rightarrow>
                          (case reserveItems processedItems (tickets d) of
                             (False, ts) \<Rightarrow>
                               ((500, PurchaseCreationError), d\<lparr>tickets := ts, purchases := ps\<rparr>)
                           | (True, ts) \<Rightarrow>
                               ((201, PurchaseCreated p), d\<lparr>tickets := ts, purchases := ps\<rparr>)))))"

text \<open>\<open>Purchase.findOne({_id: id, 'customer.userId': user})\<close>.\<close>

definition findOwned :: "object_id \<Rightarrow> object_id \<Rightarrow> (object_id \<times> purchase) list \<Rightarrow> purchase option" where
  "findOwned i user ps =
     (case map_of ps i of
        None \<Rightarrow> None
      | Some p \<Rightarrow> if userId p = user then Some p else None)"

text \<open>The release loop of the cancellation route; a ticket that is gone is skipped.\<close>

fun releaseItems :: "purchase_item list \<Rightarrow> (object_id \<rightharpoonup> ticket) \<Rightarrow> (object_id \<rightharpoonup> ticket)" where
  "releaseItems [] ts = ts"
| "releaseItems (item # rest) ts =
     (case ts (ticketId item) of
        None \<Rightarrow> releaseItems rest ts
      | Some ticket \<Rightarrow>
          (let (r, t1) = releaseStock (quantity item) ticket
           in releaseItems rest (if r = ReturnedSave then ts(ticketId item \<mapsto> t1) else ts)))"

text \<open>
  The handler of \<open>PATCH /api/purchases/:id/cancel\<close>. \<open>reason\<close> is \<open>req.body.reason\<close>;
  when it is absent the default parameter \<open>''\<close> of \<open>cancelPurchase\<close> applies. A rejected
  \<open>cancelPurchase\<close> is thrown by \<open>await\<close> into the \<open>catch\<close> block.
\<close>

definition patch_cancel :: "object_id \<Rightarrow> object_id \<Rightarrow> string option \<Rightarrow> db \<Rightarrow> response \<times> db" where
  "patch_cancel user i reason d =
     (case findOwned i user (purchases d) of
        None \<Rightarrow> ((404, PurchaseNotFound), d)
      | Some p \<Rightarrow>
          (case cancelPurchase (case reason of None \<Rightarrow> [] | Some r \<Rightarrow> r) p of
             (Rejected e, p') \<Rightarrow> ((500, PurchaseCancelError), d)
           | (Resolved, p') \<Rightarrow>
               ((200, PurchaseCancelled p'),
                d\<lparr>tickets := releaseItems (items p') (tickets d),
                   purchases := AList.update i p' (purchases d)\<rparr>)))"

section \<open>Example data\<close>

definition adult_ticket :: ticket where
  "adult_ticket = \<lparr>ttype = ''Adulte'', price = 1000, isAvailable = True, stock = 5,
                    purchaseCount = 0, revenue = 0\<rparr>"

definition pass_ticket :: ticket where
  "pass_ticket = \<lparr>ttype = ''Pass'', price = 500, isAvailable = True, stock = - 1,
                   purchaseCount = 0, revenue = 0\<rparr>"

definition closed_ticket :: ticket where
  "closed_ticket = \<lparr>ttype = ''Nocturne'', price = 2500, isAvailable = False, stock = - 1,
                     purchaseCount = 0, revenue = 0\<rparr>"

definition confirmed_purchase :: purchase where
  "confirmed_purchase =
     \<lparr>userId = 7,
      items = [\<lparr>ticketId = 1, ticketType = ''Adulte'', quantity = 2, unitPrice = 1000,
                totalPrice = 2000\<rparr>],
      subtotal = 2000, tax = 360, discount = 0, total_p = 2360, status = Confirmed,
      qrCode = ''PUR1700000000000AB12C'', qrCodeBase64 = ''data:image/png;base64,iVBOR'',
      purchaseDate = 1700000000000, validFrom = 1700000000000, validUntil = 1702592000000,
      paymentMethod = Card, notes_p = None\<rparr>"

definition env0 :: request_env where
  "env0 = \<lparr>purchaseId = ''PUR1700000000000AB12C'',
            qrDataURL = Some ''data:image/png;base64,iVBOR'',
            nowDefault = 1700000000000, nowUntil = 1700000000000, newObjectId = 100\<rparr>"

definition req0 :: purchase_request where
  "req0 = \<lparr>req_customer_userId = None,
            req_items = [\<lparr>req_ticketId = 1, req_quantity = 2\<rparr>],
            req_paymentMethod = Card, req_notes = None\<rparr>"

definition db0 :: db where
  "db0 = \<lparr>tickets = [1 \<mapsto> adult_ticket], purchases = []\<rparr>"

definition db_pending :: db where
  "db_pending = \<lparr>tickets = [1 \<mapsto> adult_ticket\<lparr>stock := 3\<rparr>],
                  purchases = [(100, confirmed_purchase\<lparr>status := Pending\<rparr>)]\<rparr>"

definition db_confirmed :: db where
  "db_confirmed = \<lparr>tickets = [1 \<mapsto> adult_ticket\<lparr>stock := 3\<rparr>],
                    purchases = [(100, confirmed_purchase)]\<rparr>"

definition ten_ticket :: ticket where
  "ten_ticket = \<lparr>ttype = ''Enfant'', price = 10, isAvailable = True, stock = 5,
                  purchaseCount = 0, revenue = 0\<rparr>"

definition db_ten :: db where
  "db_ten = \<lparr>tickets = [1 \<mapsto> ten_ticket], purchases = []\<rparr>"

definition req_one :: purchase_request where
  "req_one = \<lparr>req_customer_userId = None,
               req_items = [\<lparr>req_ticketId = 1, req_quantity = 1\<rparr>],
               req_paymentMethod = Card, req_notes = None\<rparr>"

definition ten_purchase :: purchase where
  "ten_purchase =
     \<lparr>userId = 7,
      items = [\<lparr>ticketId = 1, ticketType = ''Enfant'', quantity = 1, unitPrice = 10,
                totalPrice = 10\<rparr>],
      subtotal = 10, tax = 2026619832316723 / 1125899906842624, discount = 0,
      total_p = 3321404725185741 / 281474976710656, status = Pending,
      qrCode = ''PUR1700000000000AB12C'', qrCodeBase64 = ''data:image/png;base64,iVBOR'',
      purchaseDate = 1700000000000, validFrom = 1700000000000, validUntil = 1702592000000,
      paymentMethod = Card, notes_p = None\<rparr>"

definition big_ticket :: ticket where
  "big_ticket = \<lparr>ttype = ''Adulte'', price = 1000, isAvailable = True,
                  stock = 9007199254740994, purchaseCount = 0, revenue = 0\<rparr>"


section \<open>Lemmas on the numbers\<close>

lemma floor_rat_numeral [simp]:
  "\<lfloor>numeral a / numeral b :: rat\<rfloor> = numeral a div numeral b"
  using floor_divide_of_int_eq [of "numeral a" "numeral b", where ?'a = rat] by simp

lemmas round64_eval = round64_def scale_up.simps scale_down.simps round_half_even_def Let_def

lemma round_half_even_of_int: "round_half_even (of_int k) = k"
  by (simp add: round_half_even_def)

lemma scale_up_value:
  "scale_up m e = (m', e') \<Longrightarrow> m' * 2 powi e' = m * 2 powi e"
proof (induction m e rule: scale_up.induct)
  case (1 m e)
  show ?case
  proof (cases "0 < m \<and> m < 2 ^ 52 \<and> - 1074 < e")
    case True
    with "1.prems" have "scale_up (2 * m) (e - 1) = (m', e')"
      by (simp add: scale_up.simps [of m e])
    from "1.IH" [OF True this] show ?thesis
      by (simp add: power_int_diff)
  next
    case False
    then have "scale_up m e = (m, e)"
      by (subst scale_up.simps) (rule if_not_P)
    with "1.prems" show ?thesis
      by simp
  qed
qed

lemma scale_up_int:
  "scale_up m e = (m', e') \<Longrightarrow> m \<in> \<int> \<Longrightarrow> m' \<in> \<int>"
proof (induction m e rule: scale_up.induct)
  case (1 m e)
  show ?case
  proof (cases "0 < m \<and> m < 2 ^ 52 \<and> - 1074 < e")
    case True
    with "1.prems" have "scale_up (2 * m) (e - 1) = (m', e')"
      by (simp add: scale_up.simps [of m e])
    moreover from "1.prems" have "2 * m \<in> \<int>"
      by simp
    ultimately show ?thesis
      using "1.IH" [OF True] by blast
  next
    case False
    then have "scale_up m e = (m, e)"
      by (subst scale_up.simps) (rule if_not_P)
    with "1.prems" show ?thesis
      by simp
  qed
qed

lemma round64_pow53:
  "round64 9007199254740992 = 9007199254740992"
  "round64 (- 9007199254740992) = - 9007199254740992"
  by (simp_all add: round64_eval)

lemma round64_of_int:
  assumes "\<bar>n\<bar> \<le> 9007199254740992"
  shows "round64 (of_int n) = of_int n"
proof (cases "\<bar>n\<bar> = 9007199254740992")
  case True
  then have "n = 9007199254740992 \<or> n = - 9007199254740992"
    by linarith
  then show ?thesis
    using round64_pow53 by fastforce
next
  case False
  with assms have lt: "\<bar>n\<bar> < 9007199254740992" by simp
  obtain m' e' where su: "scale_up (of_int \<bar>n\<bar>) 0 = (m', e')"
    by (cases "scale_up (of_int \<bar>n\<bar>) 0")
  from scale_up_int [OF su] obtain k where k: "m' = of_int k"
    by (auto elim: Ints_cases)
  from scale_up_value [OF su] have v: "m' * 2 powi e' = of_int \<bar>n\<bar>"
    by simp
  from lt have "(of_int \<bar>n\<bar> :: rat) < of_int 9007199254740992"
    by (simp only: of_int_less_iff)
  then have "\<not> (2 ^ 53 \<le> \<bar>(of_int n :: rat)\<bar>)"
    by simp
  then have "round64 (of_int n) = sgn (of_int n) * of_int (round_half_even m') * 2 powi e'"
    using su by (simp add: round64_def)
  also have "\<dots> = sgn (of_int n) * (m' * 2 powi e')"
    by (simp add: k round_half_even_of_int)
  also have "\<dots> = of_int n"
    by (simp add: v sgn_if abs_if)
  finally show ?thesis .
qed

lemma js_add_int_exact: "\<bar>a + b\<bar> \<le> 9007199254740992 \<Longrightarrow> js_add_int a b = a + b"
  using round64_of_int [of "a + b"] by (simp add: js_add_int_def)

lemma js_sub_int_exact: "\<bar>a - b\<bar> \<le> 9007199254740992 \<Longrightarrow> js_sub_int a b = a - b"
  using round64_of_int [of "a - b"] by (simp add: js_sub_int_def)

lemma example_numbers:
  "js_mul 1000 2 = 2000" "js_add 0 2000 = 2000" "js_mul 2000 tax_rate = 360"
  "js_add 2000 360 = 2360" "js_sub_int 5 2 = 3" "js_add_int 0 2 = 2"
  "js_mul 10 1 = 10" "js_add 0 10 = 10"
  "js_mul 10 tax_rate = 2026619832316723 / 1125899906842624"
  "js_add 10 (2026619832316723 / 1125899906842624) = 3321404725185741 / 281474976710656"
  "js_sub_int 5 1 = 4" "js_add_int 0 1 = 1" "js_add_int 3 2 = 5"
  "js_sub_int 9007199254740994 1 = 9007199254740992"
  "js_add_int 9007199254740992 1 = 9007199254740992"
  by (simp_all add: js_mul_def js_add_def js_sub_int_def js_add_int_def tax_rate_def round64_eval)

section \<open>Lemmas on the handlers\<close>

lemma processItems_acc:
  "processItems ts its sub acc = Inr (sub', acc') \<Longrightarrow>
   \<exists>new. acc' = acc @ new \<and> sub' = foldl js_add sub (map totalPrice new)
     \<and> (\<forall>it\<in>set new. totalPrice it = js_mul (unitPrice it) (of_int (quantity it)))
     \<and> map quantity new = map req_quantity its
     \<and> map ticketId new = map req_ticketId its
     \<and> (\<forall>it\<in>set new. \<exists>t. ts (ticketId it) = Some t \<and> unitPrice it = price t \<and> ticketType it = ttype t)"
proof (induction its arbitrary: sub acc)
  case Nil
  then show ?case by simp
next
  case (Cons item rest)
  then obtain t where t: "ts (req_ticketId item) = Some t"
    by (cases "ts (req_ticketId item)") auto
  let ?line = "\<lparr>ticketId = req_ticketId item, ticketType = ttype t,
                 quantity = req_quantity item, unitPrice = price t,
                 totalPrice = js_mul (price t) (of_int (req_quantity item))\<rparr>"
  from Cons.prems t
  have rec: "processItems ts rest (js_add sub (js_mul (price t) (of_int (req_quantity item))))
               (acc @ [?line]) = Inr (sub', acc')"
    by (simp add: Let_def split: if_splits)
  from Cons.IH [OF rec] obtain new where new:
    "acc' = (acc @ [?line]) @ new"
    "sub' = foldl js_add (js_add sub (js_mul (price t) (of_int (req_quantity item))))
              (map totalPrice new)"
    "\<forall>it\<in>set new. totalPrice it = js_mul (unitPrice it) (of_int (quantity it))"
    "map quantity new = map req_quantity rest"
    "map ticketId new = map req_ticketId rest"
    "\<forall>it\<in>set new. \<exists>t. ts (ticketId it) = Some t \<and> unitPrice it = price t \<and> ticketType it = ttype t"
    by blast
  show ?case
    apply (rule exI [of _ "?line # new"])
    using new t by simp
qed




lemma insertPurchase_Some:
  assumes "insertPurchase i p ps = Some ps'"
  shows "ps' = ps @ [(i, p)] \<and> map_of ps' i = Some p \<and> schema_valid p"
proof -
  from assms have a: "save p = Resolved" and b: "\<not> list_ex (\<lambda>(j, q). j = i \<or> qrCode q = qrCode p) ps"
    and c: "ps' = ps @ [(i, p)]"
    by (auto simp: insertPurchase_def split: if_splits)
  from b have "i \<notin> fst ` set ps"
    by (auto simp: list_ex_iff)
  then have "map_of ps i = None"
    by (simp add: map_of_eq_None_iff)
  with c have "map_of ps' i = Some p"
    by (simp add: map_add_def)
  moreover from a have "schema_valid p"
    by (simp add: save_def split: if_splits)
  ultimately show ?thesis using c by simp
qed

lemma processItems_Inl_400:
  "processItems ts its sub acc = Inl r \<Longrightarrow> fst r = 400"
  by (induction its arbitrary: sub acc)
     (auto simp: Let_def split: option.splits if_splits)

lemma post_purchases_created:
  assumes "post_purchases env user req d = ((201, PurchaseCreated p), d')"
  shows "\<exists>sub processedItems qr ps ts.
           processItems (tickets d) (req_items req) 0 [] = Inr (sub, processedItems)
           \<and> qrDataURL env = Some qr
           \<and> p = newPurchase env user req processedItems sub (js_mul sub tax_rate)
                   (js_add sub (js_mul sub tax_rate)) qr
           \<and> insertPurchase (newObjectId env) p (purchases d) = Some ps
           \<and> reserveItems processedItems (tickets d) = (True, ts)
           \<and> d' = d\<lparr>tickets := ts, purchases := ps\<rparr>"
proof (cases "processItems (tickets d) (req_items req) 0 []")
  case (Inl r)
  from processItems_Inl_400 [OF Inl] Inl assms show ?thesis
    by (auto simp: post_purchases_def)
next
  case (Inr res)
  with assms show ?thesis
    by (cases res)
       (auto simp: post_purchases_def Let_def split: option.splits prod.splits bool.splits)
qed

lemma single_line_stock:
  assumes "post_purchases env user req d = ((201, PurchaseCreated p), d')"
    and "req_items req = [item]"
    and "tickets d (req_ticketId item) = Some t"
    and "stock t \<noteq> - 1"
  shows "map_option stock (tickets d' (req_ticketId item))
           = Some (js_sub_int (stock t) (req_quantity item))
         \<and> req_quantity item \<le> stock t"
proof -
  from post_purchases_created [OF assms(1)] obtain sub processedItems ps ts where
    run: "processItems (tickets d) (req_items req) 0 [] = Inr (sub, processedItems)"
    and res: "reserveItems processedItems (tickets d) = (True, ts)"
    and d': "d' = d\<lparr>tickets := ts, purchases := ps\<rparr>"
    by blast
  from run assms(2,3) have av: "fst (isAvailableForPurchase (req_quantity item) t)"
    and pi: "processedItems = [\<lparr>ticketId = req_ticketId item, ticketType = ttype t,
                 quantity = req_quantity item, unitPrice = price t,
                 totalPrice = js_mul (price t) (of_int (req_quantity item))\<rparr>]"
    by (auto simp: Let_def split: if_splits)
  from av assms(4) have ge: "stock t \<ge> req_quantity item"
    by (simp add: isAvailableForPurchase_def split: if_splits)
  from res pi assms(3,4) ge have "map_option stock (ts (req_ticketId item)) = Some (js_sub_int (stock t) (req_quantity item))"
    by (auto simp: reserveStock_def updateStats_def Let_def)
  with d' ge show ?thesis by simp
qed



section \<open>Properties of the ticket inventory\<close>

text \<open>
  C4, as the code has it. For a ticket with limited stock and a quantity \<open>q\<close> with
  \<open>0 \<le> q \<le> stock \<le> 2^53\<close>, where the arithmetic of doubles on whole numbers is exact,
  \<open>reserveStock(q)\<close> followed by \<open>releaseStock(q)\<close> on the same document restores the
  stock, and with it the whole document; both calls take their saving branch.
\<close>

theorem reserve_then_release_restores_stock:
  assumes "stock t \<noteq> - 1" and "0 \<le> q" and "q \<le> stock t"
    and "stock t \<le> 9007199254740992"
  shows "stock (snd (releaseStock q (snd (reserveStock q t)))) = stock t
         \<and> snd (releaseStock q (snd (reserveStock q t))) = t
         \<and> fst (reserveStock q t) = ReturnedSave
         \<and> fst (releaseStock q (snd (reserveStock q t))) = ReturnedSave"
proof -
  from assms have "\<bar>stock t - q\<bar> \<le> 9007199254740992"
    by simp
  then have sub: "js_sub_int (stock t) q = stock t - q"
    by (rule js_sub_int_exact)
  from assms have "\<bar>stock t - q + q\<bar> \<le> 9007199254740992"
    by simp
  then have add: "js_add_int (stock t - q) q = stock t"
    using js_add_int_exact [of "stock t - q" q] by simp
  from assms have "stock t - q \<noteq> - 1"
    by simp
  with assms sub add show ?thesis
    by (simp add: reserveStock_def releaseStock_def)
qed

theorem reserve_then_release_restores_stock_witness:
  "stock adult_ticket \<noteq> - 1 \<and> (0::int) \<le> 2 \<and> 2 \<le> stock adult_ticket
   \<and> stock adult_ticket \<le> 9007199254740992
   \<and> stock (snd (reserveStock 2 adult_ticket)) = 3
   \<and> stock (snd (releaseStock 2 (snd (reserveStock 2 adult_ticket)))) = 5"
  using reserve_then_release_restores_stock [of adult_ticket 2]
  by (simp add: adult_ticket_def reserveStock_def example_numbers)

text \<open>
  C4, as the claim states it, fails for a large stock: from a stock of
  9007199254740994 the reservation of one unit leaves 9007199254740992, the double
  nearest to the difference, and the release of that unit leaves 9007199254740992
  again.
\<close>

theorem reserve_then_release_loses_stock:
  "stock big_ticket \<noteq> - 1 \<and> 1 \<le> stock big_ticket
   \<and> stock (snd (reserveStock 1 big_ticket)) = 9007199254740992
   \<and> stock (snd (releaseStock 1 (snd (reserveStock 1 big_ticket)))) = 9007199254740992
   \<and> stock (snd (releaseStock 1 (snd (reserveStock 1 big_ticket)))) \<noteq> stock big_ticket"
  by (simp add: big_ticket_def reserveStock_def releaseStock_def example_numbers)

text \<open>
  C5. \<open>isAvailableForPurchase(quantity)\<close> returns true exactly when the ticket is marked
  available and its stock is the unlimited sentinel or covers the quantity. So it is
  false when the quantity exceeds a limited stock, and false when the ticket is marked
  unavailable. The ticket document is the same after the call. The statement holds for
  every quantity, positive or not.
\<close>

theorem isAvailableForPurchase_iff:
  "fst (isAvailableForPurchase q t) = (isAvailable t \<and> (stock t = - 1 \<or> stock t \<ge> q))
   \<and> (stock t \<noteq> - 1 \<and> q > stock t \<longrightarrow> fst (isAvailableForPurchase q t) = False)
   \<and> (\<not> isAvailable t \<longrightarrow> fst (isAvailableForPurchase q t) = False)
   \<and> snd (isAvailableForPurchase q t) = t"
  by (simp add: isAvailableForPurchase_def)

theorem isAvailableForPurchase_iff_witness:
  "fst (isAvailableForPurchase 2 adult_ticket) = True
   \<and> stock adult_ticket \<noteq> - 1 \<and> 6 > stock adult_ticket
   \<and> fst (isAvailableForPurchase 6 adult_ticket) = False
   \<and> \<not> isAvailable closed_ticket
   \<and> fst (isAvailableForPurchase 1 closed_ticket) = False"
  using isAvailableForPurchase_iff [of 2 adult_ticket]
    isAvailableForPurchase_iff [of 6 adult_ticket]
    isAvailableForPurchase_iff [of 1 closed_ticket]
  by (simp add: adult_ticket_def closed_ticket_def)

text \<open>
  C9. On a ticket whose stock is the unlimited sentinel \<open>-1\<close>, \<open>reserveStock\<close> and
  \<open>releaseStock\<close> return \<open>true\<close> for every quantity and leave the document, hence the
  stored stock, as it was.
\<close>

theorem unlimited_stock_never_changes:
  assumes "stock t = - 1"
  shows "reserveStock q t = (ReturnedTrue, t) \<and> releaseStock q t = (ReturnedTrue, t)
         \<and> stock (snd (reserveStock q t)) = - 1 \<and> stock (snd (releaseStock q t)) = - 1"
  using assms by (simp add: reserveStock_def releaseStock_def)

theorem unlimited_stock_never_changes_witness:
  "stock pass_ticket = - 1
   \<and> stock (snd (reserveStock 7 pass_ticket)) = - 1
   \<and> stock (snd (releaseStock 7 pass_ticket)) = - 1"
  using unlimited_stock_never_changes [of pass_ticket 7]
  by (simp add: pass_ticket_def)

section \<open>Properties of the validation query\<close>

text \<open>
  C2. \<open>validatePurchase\<close> answers \<open>valid: false\<close> with the message of the
  first branch for a record whose status is not confirmed, \<open>valid: false\<close> with the message
  of the second branch for a confirmed record when the clock is strictly after \<open>validUntil\<close>,
  and \<open>valid: true\<close> with the record otherwise. The record is the same after the call,
  and a second call on it at the same clock reading gives the same answer.
\<close>

theorem validatePurchase_cases:
  "(status p \<noteq> Confirmed \<longrightarrow>
      fst (validatePurchase now p) = Invalid (''Achat non confirm'' @ [CHR 0xE9]))
   \<and> (status p = Confirmed \<and> now > validUntil p \<longrightarrow>
      fst (validatePurchase now p) = Invalid (''Achat expir'' @ [CHR 0xE9]))
   \<and> (status p = Confirmed \<and> \<not> now > validUntil p \<longrightarrow>
      fst (validatePurchase now p) = Valid p)
   \<and> snd (validatePurchase now p) = p
   \<and> validatePurchase now (snd (validatePurchase now p)) = validatePurchase now p"
  by (simp add: validatePurchase_def isExpired_def)

theorem validatePurchase_cases_witness:
  "status (confirmed_purchase\<lparr>status := Cancelled\<rparr>) \<noteq> Confirmed
   \<and> fst (validatePurchase 1700000000001 (confirmed_purchase\<lparr>status := Cancelled\<rparr>))
       = Invalid (''Achat non confirm'' @ [CHR 0xE9])
   \<and> status confirmed_purchase = Confirmed
   \<and> 1702592000001 > validUntil confirmed_purchase
   \<and> fst (validatePurchase 1702592000001 confirmed_purchase)
       = Invalid (''Achat expir'' @ [CHR 0xE9])
   \<and> \<not> 1702592000000 > validUntil confirmed_purchase
   \<and> fst (validatePurchase 1702592000000 confirmed_purchase) = Valid confirmed_purchase"
  using validatePurchase_cases [of "confirmed_purchase\<lparr>status := Cancelled\<rparr>" 1700000000001]
    validatePurchase_cases [of confirmed_purchase 1702592000001]
    validatePurchase_cases [of confirmed_purchase 1702592000000]
  by (simp add: confirmed_purchase_def)

text \<open>
  C10. \<open>validatePurchase\<close> does not read \<open>validFrom\<close>: a confirmed record is answered
  \<open>valid: true\<close> whenever the clock is not after \<open>validUntil\<close>, also when the clock is
  strictly before \<open>validFrom\<close>, where the virtual \<open>isValid\<close> is false; and changing
  \<open>validFrom\<close> changes nothing in the answer but the record it carries.
\<close>

theorem validatePurchase_ignores_validFrom:
  assumes "status p = Confirmed" and "now \<le> validUntil p"
  shows "fst (validatePurchase now p) = Valid p
         \<and> (now < validFrom p \<longrightarrow> \<not> isValid now p)
         \<and> fst (validatePurchase now (p\<lparr>validFrom := v\<rparr>)) = Valid (p\<lparr>validFrom := v\<rparr>)"
  using assms by (simp add: validatePurchase_def isExpired_def isValid_def)

theorem validatePurchase_ignores_validFrom_witness:
  "status confirmed_purchase = Confirmed
   \<and> 1600000000000 \<le> validUntil confirmed_purchase
   \<and> 1600000000000 < validFrom confirmed_purchase
   \<and> fst (validatePurchase 1600000000000 confirmed_purchase) = Valid confirmed_purchase
   \<and> \<not> isValid 1600000000000 confirmed_purchase"
  using validatePurchase_ignores_validFrom [of confirmed_purchase 1600000000000]
  by (simp add: confirmed_purchase_def)

section \<open>Properties of the purchase workflow\<close>

text \<open>
  C1, as the code has it. A purchase created by \<open>POST /api/purchases\<close> is built without
  a status, so it takes the schema default: the record answered with 201, which is the
  record stored under the new identifier, has status \<open>pending\<close>.
\<close>

theorem created_purchase_is_pending:
  assumes "post_purchases env user req d = ((201, PurchaseCreated p), d')"
  shows "status p = Pending \<and> map_of (purchases d') (newObjectId env) = Some p"
proof -
  from post_purchases_created [OF assms] obtain sub processedItems qr ps ts where
    p: "p = newPurchase env user req processedItems sub (js_mul sub tax_rate)
              (js_add sub (js_mul sub tax_rate)) qr"
    and ins: "insertPurchase (newObjectId env) p (purchases d) = Some ps"
    and d': "d' = d\<lparr>tickets := ts, purchases := ps\<rparr>"
    by blast
  from p have "status p = Pending"
    by (simp add: newPurchase_def)
  moreover from insertPurchase_Some [OF ins] have "map_of ps (newObjectId env) = Some p"
    by (rule conjunct1 [OF conjunct2])
  with d' have "map_of (purchases d') (newObjectId env) = Some p"
    by simp
  ultimately show ?thesis by simp
qed

theorem created_purchase_is_pending_witness:
  "post_purchases env0 7 req0 db0
     = ((201, PurchaseCreated (confirmed_purchase\<lparr>status := Pending\<rparr>)),
        snd (post_purchases env0 7 req0 db0))
   \<and> status (confirmed_purchase\<lparr>status := Pending\<rparr>) = Pending
   \<and> map_of (purchases (snd (post_purchases env0 7 req0 db0))) 100
       = Some (confirmed_purchase\<lparr>status := Pending\<rparr>)"
proof -
  have run: "post_purchases env0 7 req0 db0
     = ((201, PurchaseCreated (confirmed_purchase\<lparr>status := Pending\<rparr>)),
        snd (post_purchases env0 7 req0 db0))"
    by (simp add: post_purchases_def env0_def req0_def db0_def adult_ticket_def
          confirmed_purchase_def isAvailableForPurchase_def reserveStock_def updateStats_def
          newPurchase_def insertPurchase_def save_def schema_valid_def item_valid_def
          trim_def is_space_def Let_def example_numbers)
  from created_purchase_is_pending [OF run] run show ?thesis
    by (simp add: env0_def)
qed

text \<open>
  C1, as the claim states it, fails: the purchase of two tickets from a stock of five is
  answered 201 with a record whose status is \<open>pending\<close>, not \<open>confirmed\<close>.
\<close>

theorem created_purchase_not_confirmed:
  "fst (post_purchases env0 7 req0 db0)
     = (201, PurchaseCreated (confirmed_purchase\<lparr>status := Pending\<rparr>))
   \<and> status (confirmed_purchase\<lparr>status := Pending\<rparr>) \<noteq> Confirmed"
  by (simp add: post_purchases_def env0_def req0_def db0_def adult_ticket_def
        confirmed_purchase_def isAvailableForPurchase_def reserveStock_def updateStats_def
        newPurchase_def insertPurchase_def save_def schema_valid_def item_valid_def
        trim_def is_space_def Let_def example_numbers)

text \<open>
  C3, as the code has it. In every purchase answered 201 the amounts are computed in
  double arithmetic: each line total is the unit price times the quantity, rounded to
  the nearest double; the subtotal is the sum of the line totals taken from 0 in the
  order of the lines, rounded after each addition; the tax is the subtotal times the
  double nearest to 0.18, rounded; the discount is zero; the total is the subtotal plus
  the tax, rounded. The lines are those of the request, in order, priced from the
  tickets of the database. After a purchase of one line on a ticket with limited stock
  of at most \<open>2^53\<close>, the stock of the ticket is the former stock less the quantity. On
  the example of a ticket priced 1000 with stock 5 and a quantity of 2: subtotal 2000,
  tax 360, total 2360, stock 3.
\<close>

theorem purchase_totals:
  assumes "post_purchases env user req d = ((201, PurchaseCreated p), d')"
  shows "(\<forall>it\<in>set (items p). totalPrice it = round64 (unitPrice it * of_int (quantity it)))
         \<and> subtotal p = foldl (\<lambda>s t. round64 (s + t)) 0 (map totalPrice (items p))
         \<and> tax p = round64 (subtotal p * round64 (18 / 100))
         \<and> discount p = 0
         \<and> total_p p = round64 (subtotal p + tax p)
         \<and> map quantity (items p) = map req_quantity (req_items req)
         \<and> map ticketId (items p) = map req_ticketId (req_items req)
         \<and> (\<forall>it\<in>set (items p). \<exists>t. tickets d (ticketId it) = Some t \<and> unitPrice it = price t)
         \<and> (\<forall>item t. req_items req = [item] \<and> tickets d (req_ticketId item) = Some t
                \<and> stock t \<noteq> - 1 \<and> 0 \<le> req_quantity item \<and> stock t \<le> 9007199254740992
              \<longrightarrow> map_option stock (tickets d' (req_ticketId item))
                    = Some (stock t - req_quantity item))"
proof -
  from post_purchases_created [OF assms] obtain sub processedItems qr where
    run: "processItems (tickets d) (req_items req) 0 [] = Inr (sub, processedItems)"
    and p: "p = newPurchase env user req processedItems sub (js_mul sub tax_rate)
              (js_add sub (js_mul sub tax_rate)) qr"
    by blast
  have fold: "js_add = (\<lambda>s t. round64 (s + t))"
    by (intro ext) (simp add: js_add_def)
  from processItems_acc [OF run] have lines:
    "sub = foldl js_add 0 (map totalPrice processedItems)"
    "\<forall>it\<in>set processedItems. totalPrice it = js_mul (unitPrice it) (of_int (quantity it))"
    "map quantity processedItems = map req_quantity (req_items req)"
    "map ticketId processedItems = map req_ticketId (req_items req)"
    "\<forall>it\<in>set processedItems. \<exists>t. tickets d (ticketId it) = Some t \<and> unitPrice it = price t"
    by auto
  have it: "items p = map (\<lambda>it. it\<lparr>ticketType := trim (ticketType it)\<rparr>) processedItems"
    and rest: "subtotal p = sub" "tax p = round64 (sub * round64 (18 / 100))" "discount p = 0"
      "total_p p = round64 (sub + round64 (sub * round64 (18 / 100)))"
    using p by (simp_all add: newPurchase_def js_mul_def js_add_def tax_rate_def)
  have m1: "map totalPrice (items p) = map totalPrice processedItems"
    and m2: "map quantity (items p) = map quantity processedItems"
    and m3: "map ticketId (items p) = map ticketId processedItems"
    unfolding it by (simp_all add: comp_def)
  have a: "\<forall>it\<in>set (items p). totalPrice it = round64 (unitPrice it * of_int (quantity it))"
    unfolding it using lines(2) by (simp add: js_mul_def)
  have b: "\<forall>it\<in>set (items p). \<exists>t. tickets d (ticketId it) = Some t \<and> unitPrice it = price t"
    unfolding it using lines(5) by simp
  have s: "subtotal p = foldl (\<lambda>s t. round64 (s + t)) 0 (map totalPrice (items p))"
    using lines(1) rest(1) m1 fold by simp
  have c: "map_option stock (tickets d' (req_ticketId item)) = Some (stock t - req_quantity item)"
    if h: "req_items req = [item]" "tickets d (req_ticketId item) = Some t" "stock t \<noteq> - 1"
      and q: "0 \<le> req_quantity item" and bound: "stock t \<le> 9007199254740992"
    for item t
  proof -
    from single_line_stock [OF assms h]
    have st: "map_option stock (tickets d' (req_ticketId item))
                = Some (js_sub_int (stock t) (req_quantity item))"
      and le: "req_quantity item \<le> stock t"
      by simp_all
    from q le bound have "\<bar>stock t - req_quantity item\<bar> \<le> 9007199254740992"
      by simp
    from js_sub_int_exact [OF this] st show ?thesis
      by simp
  qed
  show ?thesis
    using a b c s m2 m3 lines(3,4) rest by simp
qed

theorem purchase_totals_witness:
  "post_purchases env0 7 req0 db0
     = ((201, PurchaseCreated (confirmed_purchase\<lparr>status := Pending\<rparr>)),
        snd (post_purchases env0 7 req0 db0))
   \<and> map_option price (tickets db0 1) = Some 1000
   \<and> map_option stock (tickets db0 1) = Some 5
   \<and> map req_quantity (req_items req0) = [2]
   \<and> subtotal (confirmed_purchase\<lparr>status := Pending\<rparr>) = 2000
   \<and> tax (confirmed_purchase\<lparr>status := Pending\<rparr>) = 360
   \<and> total_p (confirmed_purchase\<lparr>status := Pending\<rparr>) = 2360
   \<and> discount (confirmed_purchase\<lparr>status := Pending\<rparr>) = 0
   \<and> map_option stock (tickets (snd (post_purchases env0 7 req0 db0)) 1) = Some 3"
proof -
  have run: "post_purchases env0 7 req0 db0
     = ((201, PurchaseCreated (confirmed_purchase\<lparr>status := Pending\<rparr>)),
        snd (post_purchases env0 7 req0 db0))"
    by (simp add: post_purchases_def env0_def req0_def db0_def adult_ticket_def
          confirmed_purchase_def isAvailableForPurchase_def reserveStock_def updateStats_def
          newPurchase_def insertPurchase_def save_def schema_valid_def item_valid_def
          trim_def is_space_def Let_def example_numbers)
  have h: "req_items req0 = [\<lparr>req_ticketId = 1, req_quantity = 2\<rparr>]"
    "tickets db0 (req_ticketId \<lparr>req_ticketId = 1, req_quantity = 2\<rparr>) = Some adult_ticket"
    "stock adult_ticket \<noteq> - 1" "0 \<le> req_quantity \<lparr>req_ticketId = 1, req_quantity = 2\<rparr>"
    "stock adult_ticket \<le> 9007199254740992"
    by (simp_all add: req0_def db0_def adult_ticket_def)
  from purchase_totals [OF run] h
  have st: "map_option stock (tickets (snd (post_purchases env0 7 req0 db0))
              (req_ticketId \<lparr>req_ticketId = 1, req_quantity = 2\<rparr>))
            = Some (stock adult_ticket - req_quantity \<lparr>req_ticketId = 1, req_quantity = 2\<rparr>)"
    by blast
  have sub: "subtotal (confirmed_purchase\<lparr>status := Pending\<rparr>) = 2000"
    "tax (confirmed_purchase\<lparr>status := Pending\<rparr>) = 360"
    "total_p (confirmed_purchase\<lparr>status := Pending\<rparr>) = 2360"
    "discount (confirmed_purchase\<lparr>status := Pending\<rparr>) = 0"
    by (simp_all add: confirmed_purchase_def)
  from st have "map_option stock (tickets (snd (post_purchases env0 7 req0 db0)) 1) = Some 3"
    by (simp add: adult_ticket_def)
  with sub run show ?thesis
    by (simp add: db0_def adult_ticket_def req0_def)
qed

text \<open>
  C3, as the claim states it, fails where a product or a sum is not a double: one
  ticket priced 10 gives the subtotal 10, the tax 1.7999999999999998 (the double
  \<open>2026619832316723 / 2^50\<close>), which is not the subtotal times 0.18, and the total 11.8
  (the double \<open>3321404725185741 / 2^48\<close>), which is not the subtotal plus that tax.
\<close>

theorem purchase_totals_not_exact:
  "fst (post_purchases env0 7 req_one db_ten) = (201, PurchaseCreated ten_purchase)
   \<and> subtotal ten_purchase = 10
   \<and> tax ten_purchase = 2026619832316723 / 2 ^ 50
   \<and> total_p ten_purchase = 3321404725185741 / 2 ^ 48
   \<and> tax ten_purchase \<noteq> subtotal ten_purchase * (18 / 100)
   \<and> total_p ten_purchase \<noteq> subtotal ten_purchase + tax ten_purchase"
  by (simp add: post_purchases_def env0_def req_one_def db_ten_def ten_ticket_def
        ten_purchase_def isAvailableForPurchase_def reserveStock_def updateStats_def
        newPurchase_def insertPurchase_def save_def schema_valid_def item_valid_def
        trim_def is_space_def Let_def example_numbers)




section \<open>Properties of the cancellation\<close>




text \<open>
  The answers of \<open>PATCH /api/purchases/:id/cancel\<close>: 404 when no purchase with that
  identifier belongs to the requesting user; 500, with the database as it was, whenever
  \<open>cancelPurchase\<close> rejects, which it does for every status other than confirmed; and
  200 with the updated record, now cancelled and stored, when \<open>cancelPurchase\<close>
  succeeds.
\<close>

theorem patch_cancel_status_codes:
  "(findOwned i user (purchases d) = None \<longrightarrow>
      patch_cancel user i reason d = ((404, PurchaseNotFound), d))
   \<and> (findOwned i user (purchases d) = Some p \<and> status p \<noteq> Confirmed \<longrightarrow>
      patch_cancel user i reason d = ((500, PurchaseCancelError), d))
   \<and> (findOwned i user (purchases d) = Some p
        \<and> fst (cancelPurchase (case reason of None \<Rightarrow> [] | Some r \<Rightarrow> r) p) \<noteq> Resolved \<longrightarrow>
      patch_cancel user i reason d = ((500, PurchaseCancelError), d))
   \<and> (findOwned i user (purchases d) = Some p
        \<and> fst (cancelPurchase (case reason of None \<Rightarrow> [] | Some r \<Rightarrow> r) p) = Resolved \<longrightarrow>
      fst (patch_cancel user i reason d)
        = (200, PurchaseCancelled (snd (cancelPurchase (case reason of None \<Rightarrow> [] | Some r \<Rightarrow> r) p)))
      \<and> status p = Confirmed
      \<and> status (snd (cancelPurchase (case reason of None \<Rightarrow> [] | Some r \<Rightarrow> r) p)) = Cancelled
      \<and> map_of (purchases (snd (patch_cancel user i reason d))) i
          = Some (snd (cancelPurchase (case reason of None \<Rightarrow> [] | Some r \<Rightarrow> r) p)))"
proof -
  let ?r = "case reason of None \<Rightarrow> [] | Some r \<Rightarrow> r"
  have a: "findOwned i user (purchases d) = None \<Longrightarrow>
      patch_cancel user i reason d = ((404, PurchaseNotFound), d)"
    by (simp add: patch_cancel_def)
  have c: "patch_cancel user i reason d = ((500, PurchaseCancelError), d)"
    if "findOwned i user (purchases d) = Some p" "fst (cancelPurchase ?r p) \<noteq> Resolved"
    using that
    by (cases "cancelPurchase ?r p"; cases "fst (cancelPurchase ?r p)")
       (simp_all add: patch_cancel_def)
  have n: "fst (cancelPurchase ?r p) \<noteq> Resolved" if "status p \<noteq> Confirmed"
    using that by (simp add: cancelPurchase_def)
  have e: "fst (patch_cancel user i reason d) = (200, PurchaseCancelled (snd (cancelPurchase ?r p)))
      \<and> status p = Confirmed
      \<and> status (snd (cancelPurchase ?r p)) = Cancelled
      \<and> map_of (purchases (snd (patch_cancel user i reason d))) i = Some (snd (cancelPurchase ?r p))"
    if f: "findOwned i user (purchases d) = Some p" and r: "fst (cancelPurchase ?r p) = Resolved"
  proof -
    from r have st: "status p = Confirmed"
      by (auto simp: cancelPurchase_def split: if_splits)
    then have st': "status (snd (cancelPurchase ?r p)) = Cancelled"
      by (simp add: cancelPurchase_def Let_def)
    from r obtain p' where cp: "cancelPurchase ?r p = (Resolved, p')"
      by (cases "cancelPurchase ?r p") simp
    with f have "patch_cancel user i reason d
        = ((200, PurchaseCancelled p'),
           d\<lparr>tickets := releaseItems (items p') (tickets d),
              purchases := AList.update i p' (purchases d)\<rparr>)"
      by (simp add: patch_cancel_def)
    with cp st st' show ?thesis
      by (simp add: update_conv')
  qed
  from a c n e show ?thesis by blast
qed

theorem patch_cancel_status_codes_witness:
  "findOwned 101 7 (purchases db_confirmed) = None
   \<and> patch_cancel 7 101 None db_confirmed = ((404, PurchaseNotFound), db_confirmed)
   \<and> findOwned 100 8 (purchases db_confirmed) = None
   \<and> patch_cancel 8 100 None db_confirmed = ((404, PurchaseNotFound), db_confirmed)
   \<and> findOwned 100 7 (purchases db_pending) = Some (confirmed_purchase\<lparr>status := Pending\<rparr>)
   \<and> status (confirmed_purchase\<lparr>status := Pending\<rparr>) \<noteq> Confirmed
   \<and> patch_cancel 7 100 None db_pending = ((500, PurchaseCancelError), db_pending)
   \<and> findOwned 100 7 (purchases db_confirmed) = Some confirmed_purchase
   \<and> fst (cancelPurchase [] confirmed_purchase) = Resolved
   \<and> fst (patch_cancel 7 100 None db_confirmed)
       = (200, PurchaseCancelled (confirmed_purchase\<lparr>status := Cancelled,
            notes_p := Some (''Annul'' @ [CHR 0xE9] @ '':'')\<rparr>))
   \<and> map_of (purchases (snd (patch_cancel 7 100 None db_confirmed))) 100
       = Some (confirmed_purchase\<lparr>status := Cancelled,
            notes_p := Some (''Annul'' @ [CHR 0xE9] @ '':'')\<rparr>)"
proof -
  have f1: "findOwned 101 7 (purchases db_confirmed) = None"
    and f2: "findOwned 100 8 (purchases db_confirmed) = None"
    and f3: "findOwned 100 7 (purchases db_pending) = Some (confirmed_purchase\<lparr>status := Pending\<rparr>)"
    and f4: "findOwned 100 7 (purchases db_confirmed) = Some confirmed_purchase"
    by (simp_all add: findOwned_def db_confirmed_def db_pending_def confirmed_purchase_def)
  have s3: "status (confirmed_purchase\<lparr>status := Pending\<rparr>) \<noteq> Confirmed"
    by simp
  have c4: "cancelPurchase [] confirmed_purchase
              = (Resolved, confirmed_purchase\<lparr>status := Cancelled,
                   notes_p := Some (''Annul'' @ [CHR 0xE9] @ '':'')\<rparr>)"
    by (simp add: cancelPurchase_def Let_def save_def schema_valid_def item_valid_def
          confirmed_purchase_def cancelNotes_def trim_def is_space_def)
  from patch_cancel_status_codes [where i = 101 and user = 7 and d = db_confirmed and reason = None] f1
    patch_cancel_status_codes [where i = 100 and user = 8 and d = db_confirmed and reason = None] f2
    patch_cancel_status_codes [where i = 100 and user = 7 and d = db_pending and reason = None
      and p = "confirmed_purchase\<lparr>status := Pending\<rparr>"] f3 s3
    patch_cancel_status_codes [where i = 100 and user = 7 and d = db_confirmed and reason = None
      and p = confirmed_purchase] f4 c4
  show ?thesis
    by simp
qed

text \<open>
  C8. The claim asks for 400 when the purchase exists and is not confirmed, as the
  sibling routes answer a request that the state of the data refuses (the validation
  route for a purchase that is not confirmed, the creation route for a line that cannot
  be served). The handler does not: the rejection of \<open>cancelPurchase\<close> falls into the
  \<open>catch\<close> block, and cancelling a pending purchase of the requesting user is answered
  500.
\<close>

theorem patch_cancel_not_confirmed_is_500:
  "findOwned 100 7 (purchases db_pending) = Some (confirmed_purchase\<lparr>status := Pending\<rparr>)
   \<and> status (confirmed_purchase\<lparr>status := Pending\<rparr>) \<noteq> Confirmed
   \<and> fst (patch_cancel 7 100 None db_pending) = (500, PurchaseCancelError)
   \<and> fst (fst (patch_cancel 7 100 None db_pending)) \<noteq> 400"
  by (simp add: patch_cancel_def findOwned_def db_pending_def confirmed_purchase_def
        cancelPurchase_def)

end
